theory Spec2Isabelle
  imports Main "HOL-Library.Sublist"
begin

section \<open>Python objects used by \<open>fontbakery.callable\<close>\<close>

text \<open>
  The kinds of a parameter of a call signature, as \<open>inspect.Parameter.kind\<close> has them.
\<close>

datatype param_kind =
    POSITIONAL_ONLY
  | POSITIONAL_OR_KEYWORD
  | VAR_POSITIONAL
  | KEYWORD_ONLY
  | VAR_KEYWORD

text \<open>
  One entry of \<open>inspect.signature(f).parameters\<close>. The default is \<open>None\<close> when
  \<open>param.default is inspect.Parameter.empty\<close> and \<open>Some v\<close> when the parameter has the
  default value \<open>v\<close> (Python's own \<open>None\<close> is such a value \<open>v\<close>).
\<close>

record 'v parameter =
  param_name :: string
  param_kind :: param_kind
  param_default :: "'v option"

text \<open>
  A Python function object, as far as this module looks at it: its \<open>__name__\<close>, the
  result of \<open>inspect.getdoc\<close>, the parameters of its signature in declaration order,
  its \<open>__globals__\<close> dictionary and its body. The type \<open>'c\<close> of the body is chosen
  by the way the function is called: a check body reads the globals and its arguments,
  a condition body reads the instance it is computed for.
\<close>

record ('v, 'c) pyfunction =
  fn_name :: string
  fn_doc :: "string option"
  fn_parameters :: "'v parameter list"
  fn_globals :: "string \<rightharpoonup> 'v"
  fn_code :: 'c

datatype error =
    TypeError string
  | AttributeError string
  | IndexError string
  | NameError string
  | RaisedByUser string

text \<open>What a name of a module namespace is bound to, as far as this module binds names.\<close>

datatype 'f pyvalue = PyNone | PyFunction 'f

section \<open>FontbakeryCallable\<close>

text \<open>
  The wrapper keeps the wrapped function (\<open>update_wrapper\<close> sets \<open>__wrapped__\<close>) and,
  in its instance dictionary, the values of the three \<open>cached_property\<close> attributes
  once they have been read; \<open>None\<close> is a value not computed yet. \<open>update_wrapper\<close>
  also copies the attributes that were set on the function object; a function as
  \<open>def\<close> makes it has none, so the wrapper starts with nothing stored.
\<close>

record ('v, 'c) FontbakeryCallable =
  wrapped :: "('v, 'c) pyfunction"
  args_cached :: "string list option"
  mandatoryArgs_cached :: "string list option"
  optionalArgs_cached :: "string list option"

definition FontbakeryCallable_init :: "('v, 'c) pyfunction \<Rightarrow> ('v, 'c) FontbakeryCallable" where
  "FontbakeryCallable_init f =
     \<lparr>wrapped = f, args_cached = None, mandatoryArgs_cached = None,
      optionalArgs_cached = None\<rparr>"

definition positional :: "param_kind \<Rightarrow> bool" where
  "positional k = (k = POSITIONAL_OR_KEYWORD \<or> k = POSITIONAL_ONLY)"

text \<open>
  The loop of \<open>mandatoryArgs\<close>; the second argument is the list built so far, and the
  \<open>break\<close> returns it.
\<close>

fun mandatory_loop :: "'v parameter list \<Rightarrow> string list \<Rightarrow> string list" where
  "mandatory_loop [] acc = acc"
| "mandatory_loop (param # rest) acc =
     (if param_default param \<noteq> None \<or> \<not> positional (param_kind param)
      then acc
      else mandatory_loop rest (acc @ [param_name param]))"

text \<open>The loop of \<open>optionalArgs\<close>, with its \<open>continue\<close> and its \<open>break\<close>.\<close>

fun optional_loop :: "'v parameter list \<Rightarrow> string list \<Rightarrow> string list" where
  "optional_loop [] acc = acc"
| "optional_loop (param # rest) acc =
     (if param_default param = None then optional_loop rest acc
      else if \<not> positional (param_kind param) then acc
      else optional_loop rest (acc @ [param_name param]))"

text \<open>
  A \<open>cached_property\<close> read returns the stored value when there is one; otherwise it
  runs the method and stores the result. Each read returns the value and the wrapper
  after the read.
\<close>

definition mandatoryArgs ::
  "('v, 'c) FontbakeryCallable \<Rightarrow> string list \<times> ('v, 'c) FontbakeryCallable" where
  "mandatoryArgs self =
     (case mandatoryArgs_cached self of
        Some v \<Rightarrow> (v, self)
      | None \<Rightarrow>
          (let v = mandatory_loop (fn_parameters (wrapped self)) []
           in (v, self\<lparr>mandatoryArgs_cached := Some v\<rparr>)))"

definition optionalArgs ::
  "('v, 'c) FontbakeryCallable \<Rightarrow> string list \<times> ('v, 'c) FontbakeryCallable" where
  "optionalArgs self =
     (case optionalArgs_cached self of
        Some v \<Rightarrow> (v, self)
      | None \<Rightarrow>
          (let v = optional_loop (fn_parameters (wrapped self)) []
           in (v, self\<lparr>optionalArgs_cached := Some v\<rparr>)))"

definition args ::
  "('v, 'c) FontbakeryCallable \<Rightarrow> string list \<times> ('v, 'c) FontbakeryCallable" where
  "args self =
     (case args_cached self of
        Some v \<Rightarrow> (v, self)
      | None \<Rightarrow>
          (let (m, self1) = mandatoryArgs self;
               (opt, self2) = optionalArgs self1;
               v = m @ opt
           in (v, self2\<lparr>args_cached := Some v\<rparr>)))"

text \<open>
  \<open>__call__\<close> forwards to the wrapped function, whose body runs with the function's
  globals as its global namespace.
\<close>

definition call ::
  "('v, (string \<rightharpoonup> 'v) \<Rightarrow> 'a \<Rightarrow> 'r) FontbakeryCallable \<Rightarrow> 'a \<Rightarrow> 'r" where
  "call self actuals = fn_code (wrapped self) (fn_globals (wrapped self)) actuals"

text \<open>\<open>dict.update\<close>: the new entries win, every other entry stays.\<close>

definition inject_globals ::
  "('v, 'c) FontbakeryCallable \<Rightarrow> (string \<rightharpoonup> 'v) \<Rightarrow> ('v, 'c) FontbakeryCallable" where
  "inject_globals self new_globals =
     self\<lparr>wrapped := (wrapped self)\<lparr>fn_globals := fn_globals (wrapped self) ++ new_globals\<rparr>\<rparr>"





text \<open>A check body that is one load of a global name: the name is looked up in the globals.\<close>

definition load_global :: "string \<Rightarrow> (string \<rightharpoonup> 'v) \<Rightarrow> 'a \<Rightarrow> error + 'v" where
  "load_global n globals actuals =
     (case globals n of
        None \<Rightarrow> Inl (NameError n)
      | Some v \<Rightarrow> Inr v)"

section \<open>get_doc_desc\<close>

definition newline :: char where
  "newline = CHR 0x0A"

text \<open>\<open>s.split(sep)\<close> for a separator of one character: never an empty list.\<close>

fun str_split :: "char \<Rightarrow> string \<Rightarrow> string list" where
  "str_split sep [] = [[]]"
| "str_split sep (c # cs) =
     (if c = sep then [] # str_split sep cs
      else (case str_split sep cs of
              [] \<Rightarrow> [[c]]
            | l # ls \<Rightarrow> (c # l) # ls))"

text \<open>\<open>sep.join(xs)\<close>.\<close>

fun str_join :: "string \<Rightarrow> string list \<Rightarrow> string" where
  "str_join sep [] = []"
| "str_join sep [x] = x"
| "str_join sep (x # y # ys) = x @ sep @ str_join sep (y # ys)"

text \<open>\<open>not s\<close> for an argument that is \<open>None\<close> or a string.\<close>

definition falsy :: "string option \<Rightarrow> bool" where
  "falsy s = (s = None \<or> s = Some [])"

text \<open>\<open>s or None\<close> for a string \<open>s\<close>.\<close>

definition or_None :: "string \<Rightarrow> string option" where
  "or_None s = (if s = [] then None else Some s)"

text \<open>
  The first \<open>while\<close> loop: lines are consumed until the first empty line; the result is
  the lines left and the lines collected.
\<close>

fun description_loop :: "string list \<Rightarrow> string list \<Rightarrow> string list \<times> string list" where
  "description_loop [] acc = ([], acc)"
| "description_loop (l # ls) acc =
     (if l \<noteq> [] then description_loop ls (acc @ [l]) else (l # ls, acc))"

text \<open>The second \<open>while\<close> loop: the preceding empty lines are removed.\<close>

fun skip_empty_lines :: "string list \<Rightarrow> string list" where
  "skip_empty_lines [] = []"
| "skip_empty_lines (l # ls) = (if l = [] then skip_empty_lines ls else l # ls)"

definition get_doc_desc ::
  "('v, 'c) pyfunction \<Rightarrow> string option \<Rightarrow> string option \<Rightarrow> string option \<times> string option" where
  "get_doc_desc f descr docum =
     (let doc = (case fn_doc f of None \<Rightarrow> [] | Some d \<Rightarrow> d);
          doclines = str_split newline doc;
          (descr1, doclines1) =
             (if falsy descr
              then (let (rest, acc) = description_loop doclines []
                    in (Some (str_join '' '' acc), rest))
              else (descr, doclines));
          doclines2 = skip_empty_lines doclines1;
          docum1 =
             (if falsy docum \<and> doclines2 \<noteq> []
              then or_None (str_join [newline] doclines2)
              else docum)
      in (descr1, docum1))"

text \<open>
  The description and the documentation in the words of the specification: the leading
  non-empty lines up to the first empty line, and the remainder after that block with its
  leading empty lines stripped.
\<close>

definition doclines_of :: "('v, 'c) pyfunction \<Rightarrow> string list" where
  "doclines_of f = str_split newline (case fn_doc f of None \<Rightarrow> [] | Some d \<Rightarrow> d)"

definition spec_description :: "string list \<Rightarrow> string" where
  "spec_description ls = str_join '' '' (takeWhile (\<lambda>l. l \<noteq> []) ls)"

definition spec_remainder :: "string list \<Rightarrow> string list" where
  "spec_remainder ls = dropWhile (\<lambda>l. l = []) (dropWhile (\<lambda>l. l \<noteq> []) ls)"

definition spec_documentation :: "string list \<Rightarrow> string option" where
  "spec_documentation ls =
     (if spec_remainder ls = [] then None else Some (str_join [newline] (spec_remainder ls)))"

section \<open>FontBakeryCheck\<close>

text \<open>The keyword arguments of the constructor; \<open>no_kwargs\<close> holds their defaults.\<close>

record 'v check_kwargs =
  kw_description :: "string option"
  kw_documentation :: "string option"
  kw_name :: "string option"
  kw_conditions :: "string list option"
  kw_rationale :: "string option"
  kw_proposal :: "string option"
  kw_experimental :: bool
  kw_severity :: "int option"
  kw_configs :: "string list option"
  kw_misc_metadata :: "(string \<rightharpoonup> 'v) option"

definition no_kwargs :: "'v check_kwargs" where
  "no_kwargs =
     \<lparr>kw_description = None, kw_documentation = None, kw_name = None, kw_conditions = None,
      kw_rationale = None, kw_proposal = None, kw_experimental = False, kw_severity = None,
      kw_configs = None, kw_misc_metadata = None\<rparr>"

text \<open>
  The check object: the part set up by \<open>FontbakeryCallable.__init__\<close> and the attributes
  the constructor assigns (\<open>check_id\<close> is the attribute \<open>id\<close>).
\<close>

record ('v, 'c) FontBakeryCheck =
  callable :: "('v, 'c) FontbakeryCallable"
  check_id :: string
  conditions :: "string list"
  rationale :: "string option"
  description :: "string option"
  documentation :: "string option"
  configs :: "string list option"
  proposal :: "string option"
  experimental :: bool
  severity :: "int option"

text \<open>\<open>type(self).__name__\<close> of an instance of the class.\<close>

definition FontBakeryCheck_name :: string where
  "FontBakeryCheck_name = ''FontBakeryCheck''"

definition FontBakeryCheck_init ::
  "('v, 'c) pyfunction \<Rightarrow> string \<Rightarrow> 'v check_kwargs \<Rightarrow> error + ('v, 'c) FontBakeryCheck" where
  "FontBakeryCheck_init checkfunc ident kw =
     (let (descr, docum) = get_doc_desc checkfunc (kw_description kw) (kw_documentation kw);
          self =
            \<lparr>callable = FontbakeryCallable_init checkfunc,
             check_id = ident,
             conditions = (case kw_conditions kw of None \<Rightarrow> [] | Some cs \<Rightarrow> cs),
             rationale = kw_rationale kw,
             description = descr,
             documentation = docum,
             configs = kw_configs kw,
             proposal = kw_proposal kw,
             experimental = kw_experimental kw,
             severity = kw_severity kw\<rparr>
      in if falsy (description self)
         then Inl (TypeError (FontBakeryCheck_name @ '' needs a description.''))
         else Inr self)"

text \<open>The factory \<open>check\<close>: its result is applied to the check function.\<close>

definition check ::
  "string \<Rightarrow> 'v check_kwargs \<Rightarrow> ('v, 'c) pyfunction \<Rightarrow> error + ('v, 'c) FontBakeryCheck" where
  "check ident kw checkfunc = FontBakeryCheck_init checkfunc ident kw"

section \<open>condition\<close>

text \<open>
  \<open>functools.cached_property\<close>: the function and the attribute name, which is unset
  until \<open>__set_name__\<close> is called.
\<close>

record ('v, 'c) cached_property =
  cp_func :: "('v, 'c) pyfunction"
  cp_attrname :: "string option"

definition cached_property_init :: "('v, 'c) pyfunction \<Rightarrow> ('v, 'c) cached_property" where
  "cached_property_init f = \<lparr>cp_func = f, cp_attrname = None\<rparr>"

definition cached_property_set_name ::
  "('v, 'c) cached_property \<Rightarrow> string \<Rightarrow> error + ('v, 'c) cached_property" where
  "cached_property_set_name prop n =
     (case cp_attrname prop of
        None \<Rightarrow> Inr (prop\<lparr>cp_attrname := Some n\<rparr>)
      | Some a \<Rightarrow>
          (if n \<noteq> a
           then Inl (TypeError ''Cannot assign the same cached_property to two different names'')
           else Inr prop))"

text \<open>
  A class, as far as \<open>condition\<close> changes it: its name and the properties set on it.
  The argument of \<open>condition\<close> is a class or another object, which may have a
  \<open>__name__\<close>.
\<close>

record ('v, 'c) pyclass =
  cls_name :: string
  cls_dict :: "string \<rightharpoonup> ('v, 'c) cached_property"

datatype ('v, 'c) pyobject =
    Class "('v, 'c) pyclass"
  | NonClass "string option"

text \<open>
  The inner function \<open>decorator\<close>. It mutates the class that \<open>condition\<close> was called
  with, so it takes that class in its current state and returns it updated, next to the
  value it returns, which is \<open>None\<close>: the body has no \<open>return\<close>. \<open>condition\<close>
  raises for an object that is not a class and returns this function for a class.
\<close>

definition decorator ::
  "('v, 'c) pyfunction list \<Rightarrow> ('v, 'c) pyclass \<Rightarrow>
     error + (('v, 'c) pyfunction pyvalue \<times> ('v, 'c) pyclass)" where
  "decorator actuals cls =
     (case actuals of
        [] \<Rightarrow> Inl (IndexError ''tuple index out of range'')
      | f # _ \<Rightarrow>
          (case cached_property_set_name (cached_property_init f) (fn_name f) of
             Inl e \<Rightarrow> Inl e
           | Inr prop \<Rightarrow> Inr (PyNone, cls\<lparr>cls_dict := (cls_dict cls)(fn_name f \<mapsto> prop)\<rparr>)))"

definition condition ::
  "('v, 'c) pyobject \<Rightarrow>
     error + (('v, 'c) pyfunction list \<Rightarrow> ('v, 'c) pyclass \<Rightarrow>
                error + (('v, 'c) pyfunction pyvalue \<times> ('v, 'c) pyclass))" where
  "condition obj =
     (case obj of
        Class cls \<Rightarrow> Inr decorator
      | NonClass (Some n) \<Rightarrow> Inl (TypeError (''Condition '' @ n @ '' must be added to a class''))
      | NonClass None \<Rightarrow> Inl (AttributeError ''__name__''))"

text \<open>
  A definition in decorator position, \<open>@dec def f(...): ...\<close>, binds the name of \<open>f\<close> in
  the defining namespace to \<open>dec(f)\<close>.
\<close>

definition decorated_def ::
  "(string \<rightharpoonup> 'f pyvalue) \<Rightarrow> string \<Rightarrow> (error + ('f pyvalue \<times> 's)) \<Rightarrow>
     error + ((string \<rightharpoonup> 'f pyvalue) \<times> 's)" where
  "decorated_def ns n applied =
     (case applied of
        Inl e \<Rightarrow> Inl e
      | Inr (r, s) \<Rightarrow> Inr (ns(n \<mapsto> r), s))"

text \<open>
  An instance of the namespace class while attributes are read: its \<open>__dict__\<close>, the
  state \<open>world\<close> that a condition function may read and change, and the number of
  calls of condition functions made so far (bookkeeping of the model, which no
  condition function sees). A condition function gets the instance and the world and
  returns a value or raises, with the instance and the world as it leaves them.
\<close>

record ('v, 'w) instance_state =
  inst_dict :: "string \<rightharpoonup> 'v"
  world :: 'w
  invocations :: nat

type_synonym ('v, 'w) condition_code =
  "(string \<rightharpoonup> 'v) \<Rightarrow> 'w \<Rightarrow> (error + 'v) \<times> (string \<rightharpoonup> 'v) \<times> 'w"

text \<open>\<open>cached_property.__get__\<close> on an instance.\<close>

definition cached_property_get ::
  "('v, ('v, 'w) condition_code) cached_property \<Rightarrow> ('v, 'w) instance_state \<Rightarrow>
     (error + 'v) \<times> ('v, 'w) instance_state" where
  "cached_property_get prop st =
     (case cp_attrname prop of
        None \<Rightarrow>
          (Inl (TypeError
             ''Cannot use cached_property instance without calling __set_name__ on it.''), st)
      | Some a \<Rightarrow>
          (case inst_dict st a of
             Some val \<Rightarrow> (Inr val, st)
           | None \<Rightarrow>
               (case fn_code (cp_func prop) (inst_dict st) (world st) of
                  (Inl e, d, w) \<Rightarrow>
                    (Inl e, \<lparr>inst_dict = d, world = w, invocations = Suc (invocations st)\<rparr>)
                | (Inr val, d, w) \<Rightarrow>
                    (Inr val,
                     \<lparr>inst_dict = d(a \<mapsto> val), world = w,
                      invocations = Suc (invocations st)\<rparr>))))"

text \<open>
  Reading the attribute \<open>n\<close> of an instance of \<open>cls\<close>: the property is not a data
  descriptor, so an entry of the instance dictionary comes first.
\<close>

definition getattr_instance ::
  "('v, ('v, 'w) condition_code) pyclass \<Rightarrow> string \<Rightarrow> ('v, 'w) instance_state \<Rightarrow>
     (error + 'v) \<times> ('v, 'w) instance_state" where
  "getattr_instance cls n st =
     (case inst_dict st n of
        Some val \<Rightarrow> (Inr val, st)
      | None \<Rightarrow>
          (case cls_dict cls n of
             None \<Rightarrow> (Inl (AttributeError n), st)
           | Some prop \<Rightarrow> cached_property_get prop st))"

text \<open>Reading the attribute a number of times, each read on its own; the outcomes in order.\<close>

fun read_times ::
  "nat \<Rightarrow> ('v, ('v, 'w) condition_code) pyclass \<Rightarrow> string \<Rightarrow> ('v, 'w) instance_state \<Rightarrow>
     (error + 'v) list \<times> ('v, 'w) instance_state" where
  "read_times 0 cls n st = ([], st)"
| "read_times (Suc k) cls n st =
     (let (r, st1) = getattr_instance cls n st;
          (rs, st2) = read_times k cls n st1
      in (r # rs, st2))"

section \<open>Disabled\<close>

record 'f Disabled =
  func :: 'f

text \<open>
  The constructor assigns the attribute and does nothing else; \<open>s\<close> is whatever state a
  call of the function could change.
\<close>

definition Disabled_init :: "'f \<Rightarrow> 's \<Rightarrow> 'f Disabled \<times> 's" where
  "Disabled_init f s = (\<lparr>func = f\<rparr>, s)"

definition disable :: "'f \<Rightarrow> 's \<Rightarrow> 'f Disabled \<times> 's" where
  "disable f s = Disabled_init f s"

section \<open>Example objects\<close>



text \<open>A check function whose body is \<open>return hello\<close>.\<close>

definition hello_check ::
  "(int, (string \<rightharpoonup> int) \<Rightarrow> int list \<Rightarrow> error + int) pyfunction" where
  "hello_check =
     \<lparr>fn_name = ''hello_check'', fn_doc = Some ''Says hello.'',
      fn_parameters = [], fn_globals = Map.empty, fn_code = load_global ''hello''\<rparr>"

text \<open>
  A check function with the documentation string
  \<open>"Short desc.\n\nLong body line 1.\nLong body line 2."\<close>.
\<close>

definition documented_check :: "(int, unit) pyfunction" where
  "documented_check =
     \<lparr>fn_name = ''documented_check'',
      fn_doc = Some (''Short desc.'' @ [newline, newline] @ ''Long body line 1.'' @ [newline]
                     @ ''Long body line 2.''),
      fn_parameters =
        [\<lparr>param_name = ''ttFont'', param_kind = POSITIONAL_OR_KEYWORD, param_default = None\<rparr>],
      fn_globals = Map.empty, fn_code = ()\<rparr>"

text \<open>The check object built from it with the identifier \<open>com.example/check\<close>.\<close>

definition documented_check_built :: "(int, unit) FontBakeryCheck" where
  "documented_check_built =
     \<lparr>callable = FontbakeryCallable_init documented_check,
      check_id = ''com.example/check'',
      conditions = [],
      rationale = None,
      description = Some ''Short desc.'',
      documentation = Some (''Long body line 1.'' @ [newline] @ ''Long body line 2.''),
      configs = None,
      proposal = None,
      experimental = False,
      severity = None\<rparr>"

text \<open>Two check functions without documentation: an empty string and no string at all.\<close>

definition undocumented_a :: "(int, unit) pyfunction" where
  "undocumented_a =
     \<lparr>fn_name = ''check_a'', fn_doc = Some [], fn_parameters = [], fn_globals = Map.empty,
      fn_code = ()\<rparr>"

definition undocumented_b :: "(int, unit) pyfunction" where
  "undocumented_b =
     \<lparr>fn_name = ''check_b'', fn_doc = None, fn_parameters = [], fn_globals = Map.empty,
      fn_code = ()\<rparr>"

text \<open>
  A namespace class and two condition functions. The world is a counter of the calls
  made. \<open>isVariableFont\<close> returns the counter, so a second call would return another
  value; \<open>flaky\<close> raises when it is called for the first time and returns afterwards.
\<close>

definition Font :: "(nat, (nat, nat) condition_code) pyclass" where
  "Font = \<lparr>cls_name = ''Font'', cls_dict = Map.empty\<rparr>"

definition isVariableFont :: "(nat, (nat, nat) condition_code) pyfunction" where
  "isVariableFont =
     \<lparr>fn_name = ''isVariableFont'', fn_doc = None,
      fn_parameters =
        [\<lparr>param_name = ''font'', param_kind = POSITIONAL_OR_KEYWORD, param_default = None\<rparr>],
      fn_globals = Map.empty,
      fn_code = (\<lambda>d w. (Inr w, d, Suc w))\<rparr>"

definition flaky :: "(nat, (nat, nat) condition_code) pyfunction" where
  "flaky =
     \<lparr>fn_name = ''flaky'', fn_doc = None,
      fn_parameters =
        [\<lparr>param_name = ''font'', param_kind = POSITIONAL_OR_KEYWORD, param_default = None\<rparr>],
      fn_globals = Map.empty,
      fn_code = (\<lambda>d w. (if w = 0 then Inl (RaisedByUser ''not ready'') else Inr w, d, Suc w))\<rparr>"

definition registered ::
  "(nat, (nat, nat) condition_code) pyfunction \<Rightarrow> (nat, (nat, nat) condition_code) pyclass" where
  "registered f =
     Font\<lparr>cls_dict := [fn_name f \<mapsto> \<lparr>cp_func = f, cp_attrname = Some (fn_name f)\<rparr>]\<rparr>"

definition fresh_instance :: "(nat, nat) instance_state" where
  "fresh_instance = \<lparr>inst_dict = Map.empty, world = 0, invocations = 0\<rparr>"

section \<open>Properties of the argument contract\<close>

subsection \<open>The loops\<close>








subsection \<open>The cache\<close>







subsection \<open>The claims on the argument contract\<close>







subsection \<open>Injected globals\<close>

lemma inject_globals_mandatoryArgs:
  "fst (mandatoryArgs (inject_globals w g)) = fst (mandatoryArgs w)"
  by (simp add: mandatoryArgs_def inject_globals_def Let_def split: option.splits)

lemma inject_globals_optionalArgs:
  "fst (optionalArgs (inject_globals w g)) = fst (optionalArgs w)"
  by (simp add: optionalArgs_def inject_globals_def Let_def split: option.splits)

lemma inject_globals_args:
  "fst (args (inject_globals w g)) = fst (args w)"
  by (simp add: args_def mandatoryArgs_def optionalArgs_def inject_globals_def Let_def
      split: option.splits)

text \<open>
  Claim C7. After \<open>inject_globals\<close> with a mapping, every name of the mapping is bound
  to its mapped value in the globals of the wrapped function, which is the global
  namespace its body runs in when the wrapper is called: a body that loads the name as a
  global gets the injected value. The values of \<open>mandatoryArgs\<close>, \<open>optionalArgs\<close> and
  \<open>args\<close> are what they were before.
\<close>

theorem inject_globals_resolves_and_keeps_args:
  "(\<forall>n v actuals. g n = Some v \<longrightarrow>
      fn_globals (wrapped (inject_globals w g)) n = Some v \<and>
      (fn_code (wrapped w) = load_global n \<longrightarrow> call (inject_globals w g) actuals = Inr v)) \<and>
   (\<forall>actuals. call (inject_globals w g) actuals =
      fn_code (wrapped w) (fn_globals (wrapped w) ++ g) actuals) \<and>
   fst (mandatoryArgs (inject_globals w g)) = fst (mandatoryArgs w) \<and>
   fst (optionalArgs (inject_globals w g)) = fst (optionalArgs w) \<and>
   fst (args (inject_globals w g)) = fst (args w)"
proof -
  have 1: "fn_globals (wrapped (inject_globals w g)) n = Some v" if "g n = Some v" for n v
    using that by (simp add: inject_globals_def)
  have 2: "call (inject_globals w g) actuals =
      fn_code (wrapped w) (fn_globals (wrapped w) ++ g) actuals" for actuals
    by (simp add: call_def inject_globals_def)
  have 3: "call (inject_globals w g) actuals = Inr v"
    if "g n = Some v" "fn_code (wrapped w) = load_global n" for n v actuals
    using that by (simp add: 2 load_global_def)
  from 1 2 3 show ?thesis
    by (simp add: inject_globals_mandatoryArgs inject_globals_optionalArgs inject_globals_args)
qed

text \<open>
  Claim C7 with the mapping \<open>{"hello": 42}\<close> and a body that returns \<open>hello\<close>: the call
  raises \<open>NameError\<close> before the injection and returns 42 after it.
\<close>

theorem inject_globals_resolves_and_keeps_args_witness:
  "[''hello'' \<mapsto> (42::int)] ''hello'' = Some 42 \<and>
   fn_code (wrapped (FontbakeryCallable_init hello_check)) = load_global ''hello'' \<and>
   call (FontbakeryCallable_init hello_check) [] = Inl (NameError ''hello'') \<and>
   call (inject_globals (FontbakeryCallable_init hello_check) [''hello'' \<mapsto> 42]) [] = Inr 42 \<and>
   fst (args (inject_globals (FontbakeryCallable_init hello_check) [''hello'' \<mapsto> 42])) = []"
proof -
  let ?w = "FontbakeryCallable_init hello_check"
  let ?g = "[''hello'' \<mapsto> (42::int)]"
  have g: "?g ''hello'' = Some 42" by simp
  have c: "fn_code (wrapped ?w) = load_global ''hello''"
    by (simp add: FontbakeryCallable_init_def hello_check_def)
  have b: "call ?w [] = Inl (NameError ''hello'')"
    by (simp add: call_def FontbakeryCallable_init_def hello_check_def load_global_def)
  have a: "fst (args ?w) = []"
    by (simp add: args_def mandatoryArgs_def optionalArgs_def FontbakeryCallable_init_def
        hello_check_def Let_def)
  from inject_globals_resolves_and_keeps_args [of ?g ?w] g c
  have "call (inject_globals ?w ?g) [] = Inr 42" and "fst (args (inject_globals ?w ?g)) = fst (args ?w)"
    by blast+
  with g c b a show ?thesis by simp
qed

section \<open>Properties of the description and the documentation\<close>

subsection \<open>The loops and the string functions\<close>

lemma description_loop_eq:
  "description_loop ls acc =
     (dropWhile (\<lambda>l. l \<noteq> []) ls, acc @ takeWhile (\<lambda>l. l \<noteq> []) ls)"
  by (induction ls arbitrary: acc) simp_all

lemma skip_empty_lines_eq: "skip_empty_lines ls = dropWhile (\<lambda>l. l = []) ls"
  by (induction ls) simp_all

lemma str_join_nonempty: "xs \<noteq> [] \<Longrightarrow> hd xs \<noteq> [] \<Longrightarrow> str_join sep xs \<noteq> []"
  by (induction sep xs rule: str_join.induct) simp_all

lemma str_join_block_empty:
  "str_join sep (takeWhile (\<lambda>l. l \<noteq> []) ls) = [] \<longleftrightarrow> takeWhile (\<lambda>l. l \<noteq> []) ls = []"
proof (cases "takeWhile (\<lambda>l. l \<noteq> []) ls")
  case Nil
  then show ?thesis by simp
next
  case (Cons x xs)
  then have "x \<in> set (takeWhile (\<lambda>l. l \<noteq> []) ls)" by simp
  then have "x \<noteq> []" by (auto dest: set_takeWhileD)
  with Cons show ?thesis
    using str_join_nonempty [of "x # xs" sep] by simp
qed

lemma spec_remainder_hd: "spec_remainder ls \<noteq> [] \<Longrightarrow> hd (spec_remainder ls) \<noteq> []"
  unfolding spec_remainder_def using hd_dropWhile by blast

lemma get_doc_desc_unfolded:
  assumes "falsy descr"
  shows "get_doc_desc f descr docum =
           (Some (spec_description (doclines_of f)),
            if falsy docum \<and> spec_remainder (doclines_of f) \<noteq> []
            then or_None (str_join [newline] (spec_remainder (doclines_of f)))
            else docum)"
proof -
  let ?P = "\<lambda>l::string. l \<noteq> []"
  let ?ls = "doclines_of f"
  have dl: "description_loop ?ls [] = (dropWhile ?P ?ls, takeWhile ?P ?ls)"
    by (simp add: description_loop_eq)
  have sk: "skip_empty_lines (dropWhile ?P ?ls) = spec_remainder ?ls"
    by (simp add: skip_empty_lines_eq spec_remainder_def)
  have "get_doc_desc f descr docum =
          (let (descr1, doclines1) =
                 (let (rest, acc) = description_loop ?ls [] in (Some (str_join '' '' acc), rest));
               doclines2 = skip_empty_lines doclines1;
               docum1 = (if falsy docum \<and> doclines2 \<noteq> []
                         then or_None (str_join [newline] doclines2) else docum)
           in (descr1, docum1))"
    using assms unfolding get_doc_desc_def doclines_of_def Let_def by simp
  also have "\<dots> = (Some (str_join '' '' (takeWhile ?P ?ls)),
            if falsy docum \<and> spec_remainder ?ls \<noteq> []
            then or_None (str_join [newline] (spec_remainder ?ls))
            else docum)"
    unfolding dl Let_def prod.case sk ..
  finally show ?thesis by (simp only: spec_description_def)
qed

lemma get_doc_desc_derived:
  assumes "falsy descr"
  shows "get_doc_desc f descr docum =
           (Some (spec_description (doclines_of f)),
            if falsy docum then
              (if spec_remainder (doclines_of f) = [] then docum
               else Some (str_join [newline] (spec_remainder (doclines_of f))))
            else docum)"
proof (cases "spec_remainder (doclines_of f) = []")
  case True
  then show ?thesis by (simp add: get_doc_desc_unfolded [OF assms])
next
  case False
  have "str_join [newline] (spec_remainder (doclines_of f)) \<noteq> []"
    by (rule str_join_nonempty [OF False spec_remainder_hd [OF False]])
  then have "or_None (str_join [newline] (spec_remainder (doclines_of f))) =
          Some (str_join [newline] (spec_remainder (doclines_of f)))"
    by (simp add: or_None_def)
  with False show ?thesis by (simp add: get_doc_desc_unfolded [OF assms])
qed

lemma get_doc_desc_explicit:
  assumes "\<not> falsy descr"
  shows "fst (get_doc_desc f descr docum) = descr"
  using assms by (simp add: get_doc_desc_def Let_def)

lemma FontBakeryCheck_init_cases:
  "FontBakeryCheck_init f ident kw =
     (if falsy (fst (get_doc_desc f (kw_description kw) (kw_documentation kw)))
      then Inl (TypeError ''FontBakeryCheck needs a description.'')
      else Inr
        \<lparr>callable = FontbakeryCallable_init f,
         check_id = ident,
         conditions = (case kw_conditions kw of None \<Rightarrow> [] | Some cs \<Rightarrow> cs),
         rationale = kw_rationale kw,
         description = fst (get_doc_desc f (kw_description kw) (kw_documentation kw)),
         documentation = snd (get_doc_desc f (kw_description kw) (kw_documentation kw)),
         configs = kw_configs kw,
         proposal = kw_proposal kw,
         experimental = kw_experimental kw,
         severity = kw_severity kw\<rparr>)"
  by (simp add: FontBakeryCheck_init_def FontBakeryCheck_name_def Let_def split: prod.splits)

lemma str_join_split: "str_join [sep] (str_split sep s) = s"
proof (induction s)
  case Nil
  show ?case by simp
next
  case (Cons c cs)
  obtain l ls where sp: "str_split sep cs = l # ls"
    by (cases "str_split sep cs"; cases cs; simp split: if_splits list.splits)
  show ?case
  proof (cases "c = sep")
    case True
    with Cons sp show ?thesis by simp
  next
    case False
    with Cons sp show ?thesis by (cases ls) simp_all
  qed
qed

lemma str_join_suffix:
  "ys \<noteq> [] \<Longrightarrow> \<exists>pre. str_join sep (xs @ ys) = pre @ str_join sep ys"
proof (induction xs)
  case Nil
  show ?case by simp
next
  case (Cons x xs)
  then obtain pre where pre: "str_join sep (xs @ ys) = pre @ str_join sep ys" by blast
  from Cons.prems obtain z zs where z: "xs @ ys = z # zs" by (cases "xs @ ys") simp_all
  have "str_join sep ((x # xs) @ ys) = x @ sep @ str_join sep (xs @ ys)"
    by (simp add: z)
  with pre have "str_join sep ((x # xs) @ ys) = (x @ sep @ pre) @ str_join sep ys" by simp
  then show ?case by blast
qed

lemma spec_remainder_suffix:
  assumes "spec_remainder ls \<noteq> []"
  shows "\<exists>pre. str_join sep ls = pre @ str_join sep (spec_remainder ls)"
proof -
  let ?P = "\<lambda>l::string. l \<noteq> []"
  let ?Q = "\<lambda>l::string. l = []"
  let ?front = "takeWhile ?P ls @ takeWhile ?Q (dropWhile ?P ls)"
  have eq: "?front @ spec_remainder ls = ls"
    by (simp add: spec_remainder_def)
  from str_join_suffix [OF assms, of sep ?front]
  obtain pre where "str_join sep (?front @ spec_remainder ls) = pre @ str_join sep (spec_remainder ls)"
    by blast
  then have "str_join sep ls = pre @ str_join sep (spec_remainder ls)"
    by (simp only: eq)
  then show ?thesis by blast
qed

subsection \<open>The claims on the description and the documentation\<close>

lemma doclines_example:
  "str_split newline (''Short desc.'' @ [newline, newline] @ ''Long body line 1.'' @ [newline]
                     @ ''Long body line 2.'') =
     [''Short desc.'', [], ''Long body line 1.'', ''Long body line 2.'']"
  by (simp add: newline_def)

text \<open>
  Claim C4. When a check is constructed with no explicit description, its description is
  the leading non-empty lines of the documentation string, up to the first empty line,
  joined with single spaces (and it is not empty, or the construction would have
  failed). When no documentation is given either, the documentation is the remainder
  after that block without its leading empty lines, joined with line breaks, so that it
  is a final part of the documentation string itself; it is absent, not an empty string,
  when the remainder is empty. The documentation string
  \<open>"Short desc.\n\nLong body line 1.\nLong body line 2."\<close> gives the description
  \<open>"Short desc."\<close> and the documentation \<open>"Long body line 1.\nLong body line 2."\<close>.
\<close>

theorem description_and_documentation_from_docstring:
  assumes "FontBakeryCheck_init f ident kw = Inr chk"
    and "kw_description kw = None"
  shows "description chk = Some (spec_description (doclines_of f)) \<and>
         spec_description (doclines_of f) \<noteq> [] \<and>
         (kw_documentation kw = None \<longrightarrow>
            documentation chk = spec_documentation (doclines_of f) \<and>
            documentation chk \<noteq> Some [] \<and>
            (\<forall>d. documentation chk = Some d \<longrightarrow>
               (\<exists>pre. (case fn_doc f of None \<Rightarrow> [] | Some s \<Rightarrow> s) = pre @ d))) \<and>
         (fn_doc f = Some (''Short desc.'' @ [newline, newline] @ ''Long body line 1.''
                           @ [newline] @ ''Long body line 2.'') \<and>
          kw_documentation kw = None \<longrightarrow>
            description chk = Some ''Short desc.'' \<and>
            documentation chk = Some (''Long body line 1.'' @ [newline] @ ''Long body line 2.''))"
proof -
  let ?ls = "doclines_of f"
  have fd: "falsy (kw_description kw)" using assms(2) by (simp add: falsy_def)
  note gd = get_doc_desc_derived [OF fd, of f "kw_documentation kw"]
  from assms(1) have nf: "\<not> falsy (fst (get_doc_desc f (kw_description kw) (kw_documentation kw)))"
    and d: "description chk = fst (get_doc_desc f (kw_description kw) (kw_documentation kw))"
    and m: "documentation chk = snd (get_doc_desc f (kw_description kw) (kw_documentation kw))"
    by (auto simp: FontBakeryCheck_init_cases split: if_splits)
  have 1: "description chk = Some (spec_description ?ls)"
    by (simp add: d gd)
  have 2: "spec_description ?ls \<noteq> []"
    using nf by (simp add: gd falsy_def)
  have 3: "documentation chk = spec_documentation ?ls" if "kw_documentation kw = None"
    unfolding m gd by (simp add: that falsy_def spec_documentation_def)
  have 4: "documentation chk \<noteq> Some []" if "kw_documentation kw = None"
  proof (cases "spec_remainder ?ls = []")
    case True
    then show ?thesis by (simp add: 3 [OF that] spec_documentation_def)
  next
    case False
    from str_join_nonempty [OF False spec_remainder_hd [OF False]] False
    show ?thesis by (simp add: 3 [OF that] spec_documentation_def)
  qed
  have 5: "\<exists>pre. (case fn_doc f of None \<Rightarrow> [] | Some s \<Rightarrow> s) = pre @ d"
    if "kw_documentation kw = None" "documentation chk = Some d" for d
  proof -
    from that have ne: "spec_remainder ?ls \<noteq> []" and dd: "d = str_join [newline] (spec_remainder ?ls)"
      by (auto simp: 3 spec_documentation_def split: if_splits)
    have "str_join [newline] ?ls = (case fn_doc f of None \<Rightarrow> [] | Some s \<Rightarrow> s)"
      unfolding doclines_of_def by (rule str_join_split)
    with spec_remainder_suffix [OF ne, of "[newline]"] dd show ?thesis by metis
  qed
  have 6: "description chk = Some ''Short desc.'' \<and>
           documentation chk = Some (''Long body line 1.'' @ [newline] @ ''Long body line 2.'')"
    if "fn_doc f = Some (''Short desc.'' @ [newline, newline] @ ''Long body line 1.''
                           @ [newline] @ ''Long body line 2.'')" "kw_documentation kw = None"
  proof -
    have ls: "?ls = [''Short desc.'', [], ''Long body line 1.'', ''Long body line 2.'']"
      unfolding doclines_of_def that(1) option.case by (rule doclines_example)
    show ?thesis
      unfolding 1 3 [OF that(2)] ls
      by (simp add: spec_description_def spec_documentation_def spec_remainder_def)
  qed
  from 1 2 3 4 5 6 show ?thesis by blast
qed

text \<open>
  Claim C5, amended. When the description is still empty or absent after the
  derivation from the documentation string, the construction fails and produces no
  check: it raises \<open>TypeError\<close> with the message \<open>FontBakeryCheck needs a description.\<close>,
  which names the class of the wrapper and says nothing of the function.
\<close>

theorem no_description_fails_with_class_name:
  assumes "falsy (fst (get_doc_desc f (kw_description kw) (kw_documentation kw)))"
  shows "FontBakeryCheck_init f ident kw =
           Inl (TypeError ''FontBakeryCheck needs a description.'')"
  using assms by (simp add: FontBakeryCheck_init_cases)

text \<open>
  Claim C9. An explicit empty description is treated as an absent one:
  \<open>get_doc_desc\<close> and the constructor give the same result for both, the description is
  derived from the documentation string, and the construction fails exactly when the
  derived description is empty too.
\<close>

theorem empty_description_is_absent_description:
  "get_doc_desc f (Some []) docum = get_doc_desc f None docum \<and>
   fst (get_doc_desc f (Some []) docum) = Some (spec_description (doclines_of f)) \<and>
   FontBakeryCheck_init f ident (kw\<lparr>kw_description := Some []\<rparr>) =
     FontBakeryCheck_init f ident (kw\<lparr>kw_description := None\<rparr>) \<and>
   ((\<exists>e. FontBakeryCheck_init f ident (kw\<lparr>kw_description := Some []\<rparr>) = Inl e) \<longleftrightarrow>
      spec_description (doclines_of f) = []) \<and>
   (spec_description (doclines_of f) \<noteq> [] \<longrightarrow>
      (\<exists>chk. FontBakeryCheck_init f ident (kw\<lparr>kw_description := Some []\<rparr>) = Inr chk \<and>
             description chk = Some (spec_description (doclines_of f))))"
proof -
  have e: "falsy (Some [])" and n: "falsy None" by (simp_all add: falsy_def)
  have 1: "get_doc_desc f (Some []) docum = get_doc_desc f None docum" for docum
    by (simp only: get_doc_desc_derived [OF e] get_doc_desc_derived [OF n])
  have 2: "fst (get_doc_desc f (Some []) docum) = Some (spec_description (doclines_of f))" for docum
    by (simp add: get_doc_desc_derived [OF e])
  have 3: "FontBakeryCheck_init f ident (kw\<lparr>kw_description := Some []\<rparr>) =
     FontBakeryCheck_init f ident (kw\<lparr>kw_description := None\<rparr>)"
    by (simp add: FontBakeryCheck_init_cases 1)
  have 4: "(\<exists>e. FontBakeryCheck_init f ident (kw\<lparr>kw_description := Some []\<rparr>) = Inl e) \<longleftrightarrow>
      spec_description (doclines_of f) = []"
    by (simp add: FontBakeryCheck_init_cases 2 falsy_def)
  have 5: "\<exists>chk. FontBakeryCheck_init f ident (kw\<lparr>kw_description := Some []\<rparr>) = Inr chk \<and>
             description chk = Some (spec_description (doclines_of f))"
    if "spec_description (doclines_of f) \<noteq> []"
    using that by (simp add: FontBakeryCheck_init_cases 2 falsy_def)
  from 1 2 3 4 5 show ?thesis by blast
qed



text \<open>The construction of the example check.\<close>

lemma documented_check_init:
  "FontBakeryCheck_init documented_check ''com.example/check'' no_kwargs =
     Inr documented_check_built"
proof -
  have ls: "doclines_of documented_check =
              [''Short desc.'', [], ''Long body line 1.'', ''Long body line 2.'']"
    unfolding doclines_of_def documented_check_def by (simp add: newline_def)
  have n: "falsy None" by (simp add: falsy_def)
  have g: "get_doc_desc documented_check None None =
             (Some ''Short desc.'', Some (''Long body line 1.'' @ [newline] @ ''Long body line 2.''))"
    unfolding get_doc_desc_derived [OF n] ls
    by (simp add: spec_description_def spec_remainder_def falsy_def)
  show ?thesis
    by (simp add: FontBakeryCheck_init_cases no_kwargs_def g falsy_def
        documented_check_built_def)
qed

text \<open>Claim C4 on the example check.\<close>

theorem description_and_documentation_from_docstring_witness:
  "FontBakeryCheck_init documented_check ''com.example/check'' no_kwargs =
     Inr documented_check_built \<and>
   kw_description (no_kwargs :: int check_kwargs) = None \<and>
   kw_documentation (no_kwargs :: int check_kwargs) = None \<and>
   description documented_check_built = Some ''Short desc.'' \<and>
   documentation documented_check_built =
     Some (''Long body line 1.'' @ [newline] @ ''Long body line 2.'')"
proof -
  have k: "kw_description (no_kwargs :: int check_kwargs) = None"
    and k': "kw_documentation (no_kwargs :: int check_kwargs) = None"
    by (simp_all add: no_kwargs_def)
  have d: "fn_doc documented_check =
             Some (''Short desc.'' @ [newline, newline] @ ''Long body line 1.''
                           @ [newline] @ ''Long body line 2.'')"
    by (simp add: documented_check_def)
  from description_and_documentation_from_docstring [OF documented_check_init k] d k'
  have "description documented_check_built = Some ''Short desc.'' \<and>
        documentation documented_check_built =
          Some (''Long body line 1.'' @ [newline] @ ''Long body line 2.'')"
    by blast
  with documented_check_init k k' show ?thesis by blast
qed

text \<open>A function with an empty documentation string and no description given.\<close>

lemma undocumented_a_falsy:
  "falsy (fst (get_doc_desc undocumented_a (kw_description (no_kwargs :: int check_kwargs))
                 (kw_documentation (no_kwargs :: int check_kwargs))))"
  by (simp add: get_doc_desc_def no_kwargs_def undocumented_a_def falsy_def Let_def)

text \<open>Claim C5, amended, on that function.\<close>

theorem no_description_fails_with_class_name_witness:
  "falsy (fst (get_doc_desc undocumented_a (kw_description (no_kwargs :: int check_kwargs))
                 (kw_documentation (no_kwargs :: int check_kwargs)))) \<and>
   FontBakeryCheck_init undocumented_a ''com.example/a'' (no_kwargs :: int check_kwargs) =
     Inl (TypeError ''FontBakeryCheck needs a description.'')"
  using no_description_fails_with_class_name [OF undocumented_a_falsy] undocumented_a_falsy
  by blast

text \<open>
  Claim C5 as it is stated fails: the functions \<open>check_a\<close> and \<open>check_b\<close> fail with one
  and the same error, and its message contains neither name.
\<close>

theorem error_does_not_name_the_invocable:
  "FontBakeryCheck_init undocumented_a ''com.example/a'' (no_kwargs :: int check_kwargs) =
     Inl (TypeError ''FontBakeryCheck needs a description.'') \<and>
   FontBakeryCheck_init undocumented_b ''com.example/b'' (no_kwargs :: int check_kwargs) =
     Inl (TypeError ''FontBakeryCheck needs a description.'') \<and>
   fn_name undocumented_a = ''check_a'' \<and>
   fn_name undocumented_b = ''check_b'' \<and>
   \<not> sublist ''check_a'' ''FontBakeryCheck needs a description.'' \<and>
   \<not> sublist ''check_b'' ''FontBakeryCheck needs a description.''"
proof -
  have a: "FontBakeryCheck_init undocumented_a ''com.example/a'' (no_kwargs :: int check_kwargs) =
     Inl (TypeError ''FontBakeryCheck needs a description.'')"
    by (simp add: FontBakeryCheck_init_cases get_doc_desc_def no_kwargs_def undocumented_a_def
        falsy_def Let_def)
  have b: "FontBakeryCheck_init undocumented_b ''com.example/b'' (no_kwargs :: int check_kwargs) =
     Inl (TypeError ''FontBakeryCheck needs a description.'')"
    by (simp add: FontBakeryCheck_init_cases get_doc_desc_def no_kwargs_def undocumented_b_def
        falsy_def Let_def)
  have na: "\<not> sublist ''check_a'' ''FontBakeryCheck needs a description.''"
    by (simp add: sublist_Cons_right)
  have nb: "\<not> sublist ''check_b'' ''FontBakeryCheck needs a description.''"
    by (simp add: sublist_Cons_right)
  from a b na nb show ?thesis
    by (simp add: undocumented_a_def undocumented_b_def)
qed

text \<open>
  Claim C9 on the documented example, where the construction succeeds, and on a function
  with an empty documentation string, where it fails.
\<close>

theorem empty_description_is_absent_description_witness:
  "spec_description (doclines_of documented_check) \<noteq> [] \<and>
   FontBakeryCheck_init documented_check ''com.example/check''
     (no_kwargs\<lparr>kw_description := Some []\<rparr>) = Inr documented_check_built \<and>
   spec_description (doclines_of undocumented_a) = [] \<and>
   (\<exists>e. FontBakeryCheck_init undocumented_a ''com.example/a''
          ((no_kwargs :: int check_kwargs)\<lparr>kw_description := Some []\<rparr>) = Inl e)"
proof -
  have k: "(no_kwargs :: int check_kwargs)\<lparr>kw_description := None\<rparr> = no_kwargs"
    by (simp add: no_kwargs_def)
  have 1: "spec_description (doclines_of documented_check) \<noteq> []"
    unfolding doclines_of_def documented_check_def
    by (simp add: newline_def spec_description_def)
  have 2: "spec_description (doclines_of undocumented_a) = []"
    unfolding doclines_of_def undocumented_a_def
    by (simp add: spec_description_def)
  from empty_description_is_absent_description
         [of documented_check None "''com.example/check''" no_kwargs]
  have 3: "FontBakeryCheck_init documented_check ''com.example/check''
             (no_kwargs\<lparr>kw_description := Some []\<rparr>) = Inr documented_check_built"
    by (simp only: k documented_check_init)
  from empty_description_is_absent_description
         [of undocumented_a None "''com.example/a''" "no_kwargs :: int check_kwargs"] 2
  have 4: "\<exists>e. FontBakeryCheck_init undocumented_a ''com.example/a''
          ((no_kwargs :: int check_kwargs)\<lparr>kw_description := Some []\<rparr>) = Inl e"
    by blast
  from 1 2 3 4 show ?thesis by blast
qed

section \<open>Properties of conditions and of disabled checks\<close>

text \<open>What the decorator does to the class, and a read of an attribute already stored.\<close>

lemma decorator_installs:
  "decorator (f # others) cls =
     Inr (PyNone,
          cls\<lparr>cls_dict := (cls_dict cls)(fn_name f \<mapsto> \<lparr>cp_func = f, cp_attrname = Some (fn_name f)\<rparr>)\<rparr>)"
  by (simp add: decorator_def cached_property_set_name_def cached_property_init_def)

lemma getattr_instance_stored:
  "inst_dict st n = Some v \<Longrightarrow> getattr_instance cls n st = (Inr v, st)"
  by (simp add: getattr_instance_def)

lemma read_times_stored:
  "inst_dict st n = Some v \<Longrightarrow> read_times k cls n st = (replicate k (Inr v), st)"
  by (induction k) (simp_all add: getattr_instance_stored)

lemma getattr_instance_registered:
  assumes "cls_dict cls n = Some \<lparr>cp_func = f, cp_attrname = Some n\<rparr>"
    and "getattr_instance cls n st = (Inr v, st1)"
  shows "inst_dict st1 n = Some v" and "invocations st1 \<le> Suc (invocations st)"
  using assms
  by (auto simp: getattr_instance_def cached_property_get_def
      split: option.splits prod.splits sum.splits)

text \<open>
  Claim C6, amended. For a condition function registered on a namespace class and an
  instance of the class: when a read of the attribute returns a value, that read has
  invoked the function at most once, and any number of further reads return the
  identical value and leave the instance as it is, the number of invocations included.
  A run of reads that starts with such a read therefore invokes the function at most
  once.
\<close>

theorem condition_value_is_memoized:
  assumes "decorator (f # others) cls = Inr (r, cls1)"
    and "getattr_instance cls1 (fn_name f) st = (Inr v, st1)"
  shows "invocations st1 \<le> Suc (invocations st) \<and>
         read_times k cls1 (fn_name f) st1 = (replicate k (Inr v), st1) \<and>
         read_times (Suc k) cls1 (fn_name f) st = (replicate (Suc k) (Inr v), st1)"
proof -
  from assms(1) have "cls_dict cls1 (fn_name f) = Some \<lparr>cp_func = f, cp_attrname = Some (fn_name f)\<rparr>"
    by (auto simp: decorator_installs)
  note reg = getattr_instance_registered [OF this assms(2)]
  have later: "read_times k cls1 (fn_name f) st1 = (replicate k (Inr v), st1)"
    by (rule read_times_stored [OF reg(1)])
  have "read_times (Suc k) cls1 (fn_name f) st = (replicate (Suc k) (Inr v), st1)"
    by (simp add: assms(2) later)
  with reg(2) later show ?thesis by simp
qed

text \<open>
  Claim C6, amended, on \<open>isVariableFont\<close>: three reads on a fresh instance return the
  value of the single invocation.
\<close>

theorem condition_value_is_memoized_witness:
  "decorator [isVariableFont] Font = Inr (PyNone, registered isVariableFont) \<and>
   getattr_instance (registered isVariableFont) (fn_name isVariableFont) fresh_instance =
     (Inr 0, \<lparr>inst_dict = [''isVariableFont'' \<mapsto> 0], world = 1, invocations = 1\<rparr>) \<and>
   read_times 3 (registered isVariableFont) (fn_name isVariableFont) fresh_instance =
     ([Inr 0, Inr 0, Inr 0], \<lparr>inst_dict = [''isVariableFont'' \<mapsto> 0], world = 1, invocations = 1\<rparr>)"
proof -
  have d: "decorator [isVariableFont] Font = Inr (PyNone, registered isVariableFont)"
    by (simp add: decorator_installs registered_def Font_def)
  have g: "getattr_instance (registered isVariableFont) (fn_name isVariableFont) fresh_instance =
     (Inr 0, \<lparr>inst_dict = [''isVariableFont'' \<mapsto> 0], world = 1, invocations = 1\<rparr>)"
    by (simp add: getattr_instance_def cached_property_get_def registered_def Font_def
        isVariableFont_def fresh_instance_def)
  have "read_times (Suc 2) (registered isVariableFont) (fn_name isVariableFont) fresh_instance =
     (replicate (Suc 2) (Inr 0),
      \<lparr>inst_dict = [''isVariableFont'' \<mapsto> 0], world = 1, invocations = 1\<rparr>)"
    using condition_value_is_memoized [OF d g, of 2] by blast
  then have "read_times 3 (registered isVariableFont) (fn_name isVariableFont) fresh_instance =
     ([Inr 0, Inr 0, Inr 0], \<lparr>inst_dict = [''isVariableFont'' \<mapsto> 0], world = 1, invocations = 1\<rparr>)"
    by (simp add: numeral_3_eq_3 numeral_2_eq_2)
  with d g show ?thesis by blast
qed

text \<open>
  Claim C6 as it is stated fails for a condition function that raises: nothing is stored
  when the function raises, so two reads of \<open>flaky\<close> on a fresh instance invoke it twice,
  and the second read returns a value where the first raised.
\<close>

theorem raising_condition_is_invoked_again:
  "decorator [flaky] Font = Inr (PyNone, registered flaky) \<and>
   read_times 2 (registered flaky) ''flaky'' fresh_instance =
     ([Inl (RaisedByUser ''not ready''), Inr 1],
      \<lparr>inst_dict = [''flaky'' \<mapsto> 1], world = 2, invocations = 2\<rparr>)"
proof -
  have d: "decorator [flaky] Font = Inr (PyNone, registered flaky)"
    by (simp add: decorator_installs registered_def Font_def)
  have 1: "getattr_instance (registered flaky) ''flaky'' fresh_instance =
     (Inl (RaisedByUser ''not ready''), \<lparr>inst_dict = Map.empty, world = 1, invocations = 1\<rparr>)"
    by (simp add: getattr_instance_def cached_property_get_def registered_def Font_def
        flaky_def fresh_instance_def)
  have 2: "getattr_instance (registered flaky) ''flaky''
             \<lparr>inst_dict = Map.empty, world = 1, invocations = 1\<rparr> =
     (Inr 1, \<lparr>inst_dict = [''flaky'' \<mapsto> 1], world = 2, invocations = 2\<rparr>)"
    by (simp add: getattr_instance_def cached_property_get_def registered_def Font_def
        flaky_def)
  have "read_times (Suc (Suc 0)) (registered flaky) ''flaky'' fresh_instance =
     ([Inl (RaisedByUser ''not ready''), Inr 1],
      \<lparr>inst_dict = [''flaky'' \<mapsto> 1], world = 2, invocations = 2\<rparr>)"
    by (simp only: read_times.simps 1 2 Let_def prod.case)
  with d show ?thesis by (simp only: numeral_2_eq_2)
qed

text \<open>
  Claim C8. Constructing a \<open>Disabled\<close> around a function leaves every state that a call
  of the function could change as it is, and the attribute \<open>func\<close> of the marker is the
  function itself.
\<close>

theorem disable_keeps_the_function:
  "snd (disable f s) = s \<and> func (fst (disable f s)) = f"
  by (simp add: disable_def Disabled_init_def)

text \<open>
  Claim C10. For a class, \<open>condition\<close> returns the decorator; the decorator sets on the
  class, under the name of the function, a cached property of that function, and
  returns \<open>None\<close>. A definition in decorator position therefore binds the name of the
  function to \<open>None\<close>, not to the function, which is left as the function of the
  property in the class.
\<close>

theorem condition_decorator_returns_None:
  "condition (Class cls) = Inr decorator \<and>
   decorator (f # others) cls =
     Inr (PyNone,
          cls\<lparr>cls_dict := (cls_dict cls)(fn_name f \<mapsto> \<lparr>cp_func = f, cp_attrname = Some (fn_name f)\<rparr>)\<rparr>) \<and>
   decorated_def ns (fn_name f) (decorator [f] cls) =
     Inr (ns(fn_name f \<mapsto> PyNone),
          cls\<lparr>cls_dict := (cls_dict cls)(fn_name f \<mapsto> \<lparr>cp_func = f, cp_attrname = Some (fn_name f)\<rparr>)\<rparr>) \<and>
   (ns(fn_name f \<mapsto> PyNone)) (fn_name f) \<noteq> Some (PyFunction f) \<and>
   map_option cp_func
     (cls_dict (cls\<lparr>cls_dict := (cls_dict cls)(fn_name f \<mapsto> \<lparr>cp_func = f, cp_attrname = Some (fn_name f)\<rparr>)\<rparr>)
        (fn_name f)) = Some f"
  by (simp add: condition_def decorator_installs decorated_def_def)

end
